theory Spec2Isabelle
  imports Complex_Main
begin

section \<open>Values, exceptions and settings\<close>

text \<open>
  A Python \<open>str\<close> is a sequence of code points. It is given here by the bytes of its
  UTF-8 encoding, except that a lone surrogate (which \<open>json.loads\<close> yields for an
  escaped surrogate in a JSON string, and which has no UTF-8 encoding) stands for itself. The
  literals of the source and the texts of the libraries hold no surrogate: they are
  written \<open>str ''...''\<close>.
\<close>

datatype code_unit = Chr char | Surrogate nat

type_synonym py_str = "code_unit list"

definition str :: "string \<Rightarrow> py_str" where
  "str s = map Chr s"

text \<open>A Python \<open>float\<close>: a finite value, or one of the three that \<open>json.loads\<close> also yields.\<close>

datatype py_float = Finite rat | Infinity | Neg_infinity | NaN

text \<open>
  The Python values that \<open>json.loads\<close> produces. A \<open>dict\<close> is an association list in
  insertion order (its keys are distinct); \<open>bool\<close> is kept apart from \<open>int\<close>.
\<close>

datatype json =
    JNull
  | JBool bool
  | JInt int
  | JFloat py_float
  | JStr py_str
  | JArr "json list"
  | JObj "(py_str \<times> json) list"

text \<open>
  The exceptions that occur in the two endpoints. Each carries what its message is built
  from; \<open>str(e)\<close> itself is library text and is taken as a parameter \<open>str_of\<close>.
\<close>

datatype exn =
    JSONDecodeError
  | ClientDisconnect
  | TypeError json
  | ValidationError "(py_str \<times> json) list"
  | UnboundLocalError string
  | AttributeError json string
  | NameError string
  | ValueError json
  | UnicodeEncodeError json
  | RuntimeError string

text \<open>The module-level configuration read by the handlers (lines 33, 38, 39).\<close>

record settings =
  MCP_SERVER_NAME :: py_str
  MCP_SERVER_VERSION :: py_str
  DEBUG :: bool

text \<open>\<open>class MCPRequest(BaseModel)\<close>, lines 50-54.\<close>

datatype rpc_id = IdInt int | IdStr py_str

record MCPRequest =
  jsonrpc :: py_str
  id' :: rpc_id
  method' :: py_str
  params :: "(py_str \<times> json) list option"

subsection \<open>Rendering a response\<close>

text \<open>
  \<open>JSONResponse(...)\<close> renders its content in the constructor, by
  \<open>json.dumps(content, ensure_ascii=False, allow_nan=False, ...).encode("utf-8")\<close>:
  \<open>json.dumps\<close> raises \<open>ValueError\<close> when the content holds a float that is not
  finite, and \<open>encode\<close> raises \<open>UnicodeEncodeError\<close> when a string or a key of the
  content holds a lone surrogate.
\<close>

fun is_finite :: "py_float \<Rightarrow> bool" where
  "is_finite (Finite r) = True"
| "is_finite f = False"

primrec out_of_range :: "json \<Rightarrow> bool"
  and out_of_range_list :: "json list \<Rightarrow> bool"
  and out_of_range_items :: "(py_str \<times> json) list \<Rightarrow> bool"
  and out_of_range_item :: "py_str \<times> json \<Rightarrow> bool" where
  "out_of_range JNull = False"
| "out_of_range (JBool b) = False"
| "out_of_range (JInt n) = False"
| "out_of_range (JFloat f) = (\<not> is_finite f)"
| "out_of_range (JStr s) = False"
| "out_of_range (JArr xs) = out_of_range_list xs"
| "out_of_range (JObj d) = out_of_range_items d"
| "out_of_range_list [] = False"
| "out_of_range_list (x # xs) = (out_of_range x \<or> out_of_range_list xs)"
| "out_of_range_items [] = False"
| "out_of_range_items (p # d) = (out_of_range_item p \<or> out_of_range_items d)"
| "out_of_range_item (k, v) = out_of_range v"

fun is_surrogate :: "code_unit \<Rightarrow> bool" where
  "is_surrogate (Chr c) = False"
| "is_surrogate (Surrogate n) = True"

definition has_surrogate :: "py_str \<Rightarrow> bool" where
  "has_surrogate s = list_ex is_surrogate s"

primrec surrogates :: "json \<Rightarrow> bool"
  and surrogates_list :: "json list \<Rightarrow> bool"
  and surrogates_items :: "(py_str \<times> json) list \<Rightarrow> bool"
  and surrogates_item :: "py_str \<times> json \<Rightarrow> bool" where
  "surrogates JNull = False"
| "surrogates (JBool b) = False"
| "surrogates (JInt n) = False"
| "surrogates (JFloat f) = False"
| "surrogates (JStr s) = has_surrogate s"
| "surrogates (JArr xs) = surrogates_list xs"
| "surrogates (JObj d) = surrogates_items d"
| "surrogates_list [] = False"
| "surrogates_list (x # xs) = (surrogates x \<or> surrogates_list xs)"
| "surrogates_items [] = False"
| "surrogates_items (p # d) = (surrogates_item p \<or> surrogates_items d)"
| "surrogates_item (k, v) = (has_surrogate k \<or> surrogates v)"

text \<open>\<open>JSONResponse(status_code=..., content=...)\<close>; the default status is 200.\<close>

record JSONResponse =
  status_code :: nat
  content :: json

definition JSONResponse_init :: "nat \<Rightarrow> json \<Rightarrow> exn + JSONResponse" where
  "JSONResponse_init sc c =
     (if out_of_range c then Inl (ValueError c)
      else if surrogates c then Inl (UnicodeEncodeError c)
      else Inr \<lparr>status_code = sc, content = c\<rparr>)"

subsection \<open>Python primitives used by the handlers\<close>

text \<open>\<open>d.get(k, default)\<close> on a dict.\<close>

definition dict_get :: "(py_str \<times> json) list \<Rightarrow> py_str \<Rightarrow> json \<Rightarrow> json" where
  "dict_get d k dflt = (case map_of d k of None \<Rightarrow> dflt | Some v \<Rightarrow> v)"

text \<open>
  \<open>x.get(k, default)\<close> on an arbitrary value: only a dict has the attribute \<open>get\<close>,
  every other JSON value raises \<open>AttributeError\<close>.
\<close>

definition attr_get :: "json \<Rightarrow> py_str \<Rightarrow> json \<Rightarrow> exn + json" where
  "attr_get x k dflt =
     (case x of JObj d \<Rightarrow> Inr (dict_get d k dflt) | _ \<Rightarrow> Inl (AttributeError x ''get''))"

text \<open>Truth value testing, as \<open>not table\<close> and \<open>not query\<close> use it.\<close>

fun truthy :: "json \<Rightarrow> bool" where
  "truthy JNull = False"
| "truthy (JBool b) = b"
| "truthy (JInt n) = (n \<noteq> 0)"
| "truthy (JFloat f) = (f \<noteq> Finite 0)"
| "truthy (JStr s) = (s \<noteq> [])"
| "truthy (JArr xs) = (xs \<noteq> [])"
| "truthy (JObj d) = (d \<noteq> [])"

fun id_json :: "rpc_id \<Rightarrow> json" where
  "id_json (IdInt n) = JInt n"
| "id_json (IdStr s) = JStr s"

text \<open>
  The bare name \<open>true\<close> of lines 233, 234, 384 and 385. The module binds no such name
  and neither do the builtins (Python's constant is \<open>True\<close>, as line 482 has it), so
  evaluating it raises \<open>NameError\<close>.
\<close>

definition name_true :: "exn + json" where
  "name_true = Inl (NameError ''true'')"

text \<open>\<open>{"detail": str(e)} if DEBUG else None\<close>\<close>

definition debug_detail :: "settings \<Rightarrow> (exn \<Rightarrow> string) \<Rightarrow> exn \<Rightarrow> json" where
  "debug_detail cfg str_of e =
     (if DEBUG cfg then JObj [(str ''detail'', JStr (str (str_of e)))] else JNull)"

section \<open>The call endpoint\<close>

subsection \<open>Request validation (lines 291-296)\<close>

text \<open>
  The fields of \<open>MCPRequest\<close> are validated as pydantic 2 validates their declared
  types: \<open>jsonrpc: str = "2.0"\<close>, \<open>id: Union[int, str]\<close>, \<open>method: str\<close>,
  \<open>params: Optional[Dict[str, Any]] = None\<close>. A value of a declared type is taken
  unchanged and other keys are ignored. For \<open>id\<close>, a value of neither member type is
  then tried against each member leniently: a \<open>bool\<close> becomes the int 0 or 1, and a
  finite float without fractional part and inside the 64-bit range becomes that int;
  everything else is rejected.
\<close>

definition validate_jsonrpc :: "(py_str \<times> json) list \<Rightarrow> py_str option" where
  "validate_jsonrpc d =
     (case map_of d (str ''jsonrpc'') of
        None \<Rightarrow> Some (str ''2.0'')
      | Some (JStr s) \<Rightarrow> Some s
      | Some _ \<Rightarrow> None)"

definition int_of_float :: "py_float \<Rightarrow> int option" where
  "int_of_float f =
     (case f of
        Finite r \<Rightarrow>
          (if of_int \<lfloor>r\<rfloor> = r \<and> - (2 ^ 63) < r \<and> r < 2 ^ 63 then Some \<lfloor>r\<rfloor> else None)
      | _ \<Rightarrow> None)"

definition validate_id :: "(py_str \<times> json) list \<Rightarrow> rpc_id option" where
  "validate_id d =
     (case map_of d (str ''id'') of
        Some (JInt n) \<Rightarrow> Some (IdInt n)
      | Some (JStr s) \<Rightarrow> Some (IdStr s)
      | Some (JBool b) \<Rightarrow> Some (IdInt (if b then 1 else 0))
      | Some (JFloat f) \<Rightarrow> map_option IdInt (int_of_float f)
      | _ \<Rightarrow> None)"

definition validate_method :: "(py_str \<times> json) list \<Rightarrow> py_str option" where
  "validate_method d =
     (case map_of d (str ''method'') of Some (JStr s) \<Rightarrow> Some s | _ \<Rightarrow> None)"

definition validate_params :: "(py_str \<times> json) list \<Rightarrow> (py_str \<times> json) list option option" where
  "validate_params d =
     (case map_of d (str ''params'') of
        None \<Rightarrow> Some None
      | Some JNull \<Rightarrow> Some None
      | Some (JObj p) \<Rightarrow> Some (Some p)
      | Some _ \<Rightarrow> None)"

text \<open>
  \<open>MCPRequest(**body)\<close>: unpacking a value that is not a mapping raises \<open>TypeError\<close>;
  a mapping with a missing or rejected field raises \<open>ValidationError\<close>.
\<close>

definition MCPRequest_init :: "json \<Rightarrow> exn + MCPRequest" where
  "MCPRequest_init body =
     (case body of
        JObj d \<Rightarrow>
          (case (validate_jsonrpc d, validate_id d, validate_method d, validate_params d) of
             (Some j, Some i, Some m, Some p) \<Rightarrow>
               Inr \<lparr>jsonrpc = j, id' = i, method' = m, params = p\<rparr>
           | _ \<Rightarrow> Inl (ValidationError d))
      | _ \<Rightarrow> Inl (TypeError body))"

text \<open>
  The argument of the endpoint is the outcome of \<open>await request.json()\<close>: the decoded
  value, or the exception raised when the body is not JSON text (an empty body included).
\<close>

definition parse_request :: "exn + json \<Rightarrow> exn + MCPRequest" where
  "parse_request rj = (case rj of Inl e \<Rightarrow> Inl e | Inr body \<Rightarrow> MCPRequest_init body)"

text \<open>\<open>params = mcp_request.params or {}\<close>\<close>

definition params_or_empty :: "MCPRequest \<Rightarrow> (py_str \<times> json) list" where
  "params_or_empty rq = (case params rq of None \<Rightarrow> [] | Some p \<Rightarrow> p)"

subsection \<open>Response bodies\<close>

definition result_content :: "json \<Rightarrow> json \<Rightarrow> json" where
  "result_content i r =
     JObj [(str ''jsonrpc'', JStr (str ''2.0'')), (str ''id'', i), (str ''result'', r)]"

definition error_content :: "json \<Rightarrow> int \<Rightarrow> string \<Rightarrow> json \<Rightarrow> json" where
  "error_content i c msg d =
     JObj [(str ''jsonrpc'', JStr (str ''2.0'')), (str ''id'', i),
           (str ''error'', JObj [(str ''code'', JInt c), (str ''message'', JStr (str msg)),
                                 (str ''data'', d)])]"

text \<open>
  The handler of the inner \<open>except\<close> (lines 299-312). The local \<open>body\<close> is bound only
  when \<open>request.json()\<close> returned; reading it unbound raises \<open>UnboundLocalError\<close>
  inside the handler, which leaves it for the outer \<open>except\<close>, and so does a response
  that cannot be rendered.
\<close>

definition parse_error_response ::
  "settings \<Rightarrow> (exn \<Rightarrow> string) \<Rightarrow> json option \<Rightarrow> exn \<Rightarrow> exn + JSONResponse" where
  "parse_error_response cfg str_of body_var e =
     (case body_var of
        None \<Rightarrow> Inl (UnboundLocalError ''body'')
      | Some body \<Rightarrow>
          JSONResponse_init 400
            (error_content
               (case body of JObj d \<Rightarrow> dict_get d (str ''id'') JNull | _ \<Rightarrow> JNull)
               (- 32700) ''Parse error'' (debug_detail cfg str_of e)))"

text \<open>
  The handler of the outer \<open>except\<close> (lines 548-562). Its content holds the id
  \<open>None\<close>, literals and library text only, so it is always rendered.
\<close>

definition internal_error_response :: "settings \<Rightarrow> (exn \<Rightarrow> string) \<Rightarrow> exn \<Rightarrow> JSONResponse" where
  "internal_error_response cfg str_of e =
     \<lparr>status_code = 500,
      content = error_content JNull (- 32603) ''Internal error'' (debug_detail cfg str_of e)\<rparr>"

text \<open>The handler of the \<open>except\<close> around each stub (lines 411-421, 450-460, 486-496, 525-535).\<close>

definition application_error_response ::
  "settings \<Rightarrow> (exn \<Rightarrow> string) \<Rightarrow> rpc_id \<Rightarrow> exn \<Rightarrow> exn + JSONResponse" where
  "application_error_response cfg str_of i e =
     JSONResponse_init 200
       (error_content (id_json i) (- 32000) ''Internal error'' (debug_detail cfg str_of e))"

definition invalid_params_response :: "rpc_id \<Rightarrow> string \<Rightarrow> exn + JSONResponse" where
  "invalid_params_response i detail =
     JSONResponse_init 200
       (error_content (id_json i) (- 32602) ''Invalid params''
          (JObj [(str ''detail'', JStr (str detail))]))"

subsection \<open>Effects of a call besides its response\<close>

text \<open>
  The places where the source says "Here you would implement actual ... logic" are the
  Backend; reaching one is recorded with the parameter it would be given.
\<close>

datatype backend_call =
    List_tables
  | Discover_data json
  | Prepare_query json
  | Execute_query json

text \<open>The records written through \<open>logger\<close>, each with the values its message interpolates.\<close>

datatype log_record =
    Log_request string py_str rpc_id
  | Log_invalid_request string exn
  | Log_client_initialized json json
  | Log_shutdown
  | Log_backend_error string exn
  | Log_method_not_found py_str
  | Log_unexpected exn
  | Log_processed string rat

text \<open>What \<open>uuid.uuid4()\<close> and the two reads of \<open>time.time()\<close> give one call (lines 285, 286, 565).\<close>

record call_env =
  request_id :: string
  start_time :: rat
  end_time :: rat

text \<open>A branch yields the log records written, the Backend calls made, and a response or a raised exception.\<close>

type_synonym branch = "log_record list \<times> backend_call list \<times> (exn + JSONResponse)"

subsection \<open>The stub Backend\<close>

definition list_tables_stub :: "exn + json" where
  "list_tables_stub = Inr (JArr [JStr (str ''users''), JStr (str ''products''), JStr (str ''orders'')])"

definition discover_data_stub :: "json \<Rightarrow> exn + json" where
  "discover_data_stub table = Inr (JObj
     [(str ''columns'', JArr
        [JObj [(str ''name'', JStr (str ''id'')), (str ''type'', JStr (str ''integer''))],
         JObj [(str ''name'', JStr (str ''name'')), (str ''type'', JStr (str ''string''))],
         JObj [(str ''name'', JStr (str ''created_at'')), (str ''type'', JStr (str ''timestamp''))]])])"

definition prepare_query_stub :: "json \<Rightarrow> exn + json" where
  "prepare_query_stub query = Inr (JObj [(str ''prepared'', JBool True), (str ''parameters'', JArr [])])"

definition query_stub :: "json \<Rightarrow> exn + json" where
  "query_stub query = Inr (JObj
     [(str ''columns'', JArr [JStr (str ''id''), JStr (str ''name'')]),
      (str ''rows'', JArr [JArr [JInt 1, JStr (str ''Example'')], JArr [JInt 2, JStr (str ''Test'')]])])"

subsection \<open>The capabilities object\<close>

text \<open>
  The value under \<open>"result"\<close> in the \<open>initialize\<close> branch (lines 326-388). The dict
  display is evaluated left to right; \<open>tr\<close> is what evaluating the name \<open>true\<close> gives,
  and the handler passes \<open>name_true\<close>.
\<close>

definition initialize_result :: "settings \<Rightarrow> exn + json \<Rightarrow> exn + json" where
  "initialize_result cfg tr =
     (case tr of
        Inl e \<Rightarrow> Inl e
      | Inr t \<Rightarrow> Inr (JObj
         [(str ''capabilities'', JObj
            [(str ''serverName'', JStr (MCP_SERVER_NAME cfg)),
             (str ''serverVersion'', JStr (MCP_SERVER_VERSION cfg)),
             (str ''tools'', JArr
                [JObj [(str ''name'', JStr (str ''list_tables'')),
                       (str ''description'', JStr (str ''List all available tables'')),
                       (str ''parameters'', JObj
                          [(str ''type'', JStr (str ''object'')),
                           (str ''properties'', JObj [])])],
                 JObj [(str ''name'', JStr (str ''discover_data'')),
                       (str ''description'', JStr (str ''Discover data in tables'')),
                       (str ''parameters'', JObj
                          [(str ''type'', JStr (str ''object'')),
                           (str ''properties'', JObj
                              [(str ''table'', JObj
                                  [(str ''type'', JStr (str ''string'')),
                                   (str ''description'', JStr (str ''Table name to discover''))])]),
                           (str ''required'', JArr [JStr (str ''table'')])])],
                 JObj [(str ''name'', JStr (str ''prepare_query'')),
                       (str ''description'', JStr (str ''Prepare a SQL query'')),
                       (str ''parameters'', JObj
                          [(str ''type'', JStr (str ''object'')),
                           (str ''properties'', JObj
                              [(str ''query'', JObj
                                  [(str ''type'', JStr (str ''string'')),
                                   (str ''description'', JStr (str ''SQL query to prepare''))])]),
                           (str ''required'', JArr [JStr (str ''query'')])])],
                 JObj [(str ''name'', JStr (str ''query'')),
                       (str ''description'', JStr (str ''Execute a SQL query'')),
                       (str ''parameters'', JObj
                          [(str ''type'', JStr (str ''object'')),
                           (str ''properties'', JObj
                              [(str ''query'', JObj
                                  [(str ''type'', JStr (str ''string'')),
                                   (str ''description'', JStr (str ''SQL query to execute''))])]),
                           (str ''required'', JArr [JStr (str ''query'')])])]]),
             (str ''capabilities'', JObj
                [(str ''supportedLanguages'', JArr [JStr (str ''sql''), JStr (str ''python'')]),
                 (str ''supportsNotebooks'', t),
                 (str ''supportsInlineCompletions'', t)])])]))"

subsection \<open>The branches of the method dispatch (lines 315-547)\<close>

text \<open>
  In each branch the \<open>JSONResponse\<close> is constructed, and so rendered, where the source
  constructs it: inside the \<open>try\<close> of the branch where there is one, whose handler then
  takes a failure to render like any other exception.
\<close>

definition initialize_branch :: "settings \<Rightarrow> MCPRequest \<Rightarrow> branch" where
  "initialize_branch cfg rq =
     (let client_info = dict_get (params_or_empty rq) (str ''clientInfo'') (JObj []) in
      case attr_get client_info (str ''name'') (JStr (str ''Unknown'')) of
        Inl e \<Rightarrow> ([], [], Inl e)
      | Inr client_name \<Rightarrow>
          (case attr_get client_info (str ''version'') (JStr (str ''Unknown'')) of
             Inl e \<Rightarrow> ([], [], Inl e)
           | Inr client_version \<Rightarrow>
               ([Log_client_initialized client_name client_version], [],
                case initialize_result cfg name_true of
                  Inl e \<Rightarrow> Inl e
                | Inr r \<Rightarrow> JSONResponse_init 200 (result_content (id_json (id' rq)) r))))"

definition shutdown_branch :: "MCPRequest \<Rightarrow> branch" where
  "shutdown_branch rq =
     ([Log_shutdown], [], JSONResponse_init 200 (result_content (id_json (id' rq)) JNull))"

text \<open>
  The handler shared by the four Backend branches: an exception raised in the \<open>try\<close> is
  logged and answered with the error -32000; when that response cannot be rendered
  either, the exception leaves the branch.
\<close>

definition except_backend ::
  "settings \<Rightarrow> (exn \<Rightarrow> string) \<Rightarrow> MCPRequest \<Rightarrow> string
     \<Rightarrow> backend_call list \<times> (exn + JSONResponse) \<Rightarrow> branch" where
  "except_backend cfg str_of rq doing tried =
     (case tried of
        (calls, Inr resp) \<Rightarrow> ([], calls, Inr resp)
      | (calls, Inl e) \<Rightarrow>
          ([Log_backend_error doing e], calls, application_error_response cfg str_of (id' rq) e))"

text \<open>The bodies of the four \<open>try\<close> blocks (lines 400-410, 423-449, 462-485, 498-524).\<close>

definition list_tables_try :: "MCPRequest \<Rightarrow> backend_call list \<times> (exn + JSONResponse)" where
  "list_tables_try rq =
     ([List_tables],
      case list_tables_stub of
        Inl e \<Rightarrow> Inl e
      | Inr tables \<Rightarrow>
          JSONResponse_init 200
            (result_content (id_json (id' rq)) (JObj [(str ''tables'', tables)])))"

definition discover_data_try :: "MCPRequest \<Rightarrow> backend_call list \<times> (exn + JSONResponse)" where
  "discover_data_try rq =
     (let table = dict_get (params_or_empty rq) (str ''table'') JNull in
      if \<not> truthy table then
        ([], invalid_params_response (id' rq) ''Missing required parameter: table'')
      else
        ([Discover_data table],
         case discover_data_stub table of
           Inl e \<Rightarrow> Inl e
         | Inr r \<Rightarrow> JSONResponse_init 200 (result_content (id_json (id' rq)) r)))"

definition prepare_query_try :: "MCPRequest \<Rightarrow> backend_call list \<times> (exn + JSONResponse)" where
  "prepare_query_try rq =
     (let query = dict_get (params_or_empty rq) (str ''query'') JNull in
      if \<not> truthy query then
        ([], invalid_params_response (id' rq) ''Missing required parameter: query'')
      else
        ([Prepare_query query],
         case prepare_query_stub query of
           Inl e \<Rightarrow> Inl e
         | Inr r \<Rightarrow> JSONResponse_init 200 (result_content (id_json (id' rq)) r)))"

definition query_try :: "MCPRequest \<Rightarrow> backend_call list \<times> (exn + JSONResponse)" where
  "query_try rq =
     (let query = dict_get (params_or_empty rq) (str ''query'') JNull in
      if \<not> truthy query then
        ([], invalid_params_response (id' rq) ''Missing required parameter: query'')
      else
        ([Execute_query query],
         case query_stub query of
           Inl e \<Rightarrow> Inl e
         | Inr r \<Rightarrow> JSONResponse_init 200 (result_content (id_json (id' rq)) r)))"

definition list_tables_branch :: "settings \<Rightarrow> (exn \<Rightarrow> string) \<Rightarrow> MCPRequest \<Rightarrow> branch" where
  "list_tables_branch cfg str_of rq =
     except_backend cfg str_of rq ''listing tables'' (list_tables_try rq)"

definition discover_data_branch :: "settings \<Rightarrow> (exn \<Rightarrow> string) \<Rightarrow> MCPRequest \<Rightarrow> branch" where
  "discover_data_branch cfg str_of rq =
     except_backend cfg str_of rq ''discovering data'' (discover_data_try rq)"

definition prepare_query_branch :: "settings \<Rightarrow> (exn \<Rightarrow> string) \<Rightarrow> MCPRequest \<Rightarrow> branch" where
  "prepare_query_branch cfg str_of rq =
     except_backend cfg str_of rq ''preparing query'' (prepare_query_try rq)"

definition query_branch :: "settings \<Rightarrow> (exn \<Rightarrow> string) \<Rightarrow> MCPRequest \<Rightarrow> branch" where
  "query_branch cfg str_of rq =
     except_backend cfg str_of rq ''executing query'' (query_try rq)"

definition method_not_found_branch :: "MCPRequest \<Rightarrow> branch" where
  "method_not_found_branch rq =
     ([Log_method_not_found (method' rq)], [],
      JSONResponse_init 200
        (error_content (id_json (id' rq)) (- 32601) ''Method not found''
           (JObj [(str ''method'', JStr (method' rq))])))"

definition dispatch :: "settings \<Rightarrow> (exn \<Rightarrow> string) \<Rightarrow> MCPRequest \<Rightarrow> branch" where
  "dispatch cfg str_of rq =
     (if method' rq = str ''initialize'' then initialize_branch cfg rq
      else if method' rq = str ''shutdown'' then shutdown_branch rq
      else if method' rq = str ''list_tables'' then list_tables_branch cfg str_of rq
      else if method' rq = str ''discover_data'' then discover_data_branch cfg str_of rq
      else if method' rq = str ''prepare_query'' then prepare_query_branch cfg str_of rq
      else if method' rq = str ''query'' then query_branch cfg str_of rq
      else method_not_found_branch rq)"

subsection \<open>The endpoint \<open>mcp_post\<close> (lines 278-565)\<close>

record outcome =
  response :: JSONResponse
  invoked :: "backend_call list"
  logged :: "log_record list"

text \<open>The body of the outer \<open>try\<close>: validation, its handler, and the dispatch.\<close>

definition mcp_post_try :: "settings \<Rightarrow> (exn \<Rightarrow> string) \<Rightarrow> call_env \<Rightarrow> exn + json \<Rightarrow> branch" where
  "mcp_post_try cfg str_of env rj =
     (case parse_request rj of
        Inl e \<Rightarrow>
          ([Log_invalid_request (request_id env) e], [],
           parse_error_response cfg str_of (case rj of Inl _ \<Rightarrow> None | Inr body \<Rightarrow> Some body) e)
      | Inr rq \<Rightarrow>
          (case dispatch cfg str_of rq of
             (logs, calls, r) \<Rightarrow>
               (Log_request (request_id env) (method' rq) (id' rq) # logs, calls, r)))"

definition mcp_post :: "settings \<Rightarrow> (exn \<Rightarrow> string) \<Rightarrow> call_env \<Rightarrow> exn + json \<Rightarrow> outcome" where
  "mcp_post cfg str_of env rj =
     (case mcp_post_try cfg str_of env rj of
        (logs, calls, Inr resp) \<Rightarrow>
          \<lparr>response = resp, invoked = calls,
           logged = logs @ [Log_processed (request_id env) (end_time env - start_time env)]\<rparr>
      | (logs, calls, Inl e) \<Rightarrow>
          \<lparr>response = internal_error_response cfg str_of e, invoked = calls,
           logged = logs @ [Log_unexpected e,
                            Log_processed (request_id env) (end_time env - start_time env)]\<rparr>)"

text \<open>
  The process serving a sequence of calls. Its state across calls is what the handlers
  can write: the log. Each call comes with its own \<open>call_env\<close>.
\<close>

fun serve ::
  "settings \<Rightarrow> (exn \<Rightarrow> string) \<Rightarrow> log_record list \<Rightarrow> (call_env \<times> (exn + json)) list
     \<Rightarrow> log_record list \<times> outcome list" where
  "serve cfg str_of lg [] = (lg, [])"
| "serve cfg str_of lg ((env, rj) # calls) =
     (let out = mcp_post cfg str_of env rj in
      case serve cfg str_of (lg @ logged out) calls of
        (lg', outs) \<Rightarrow> (lg', out # outs))"

text \<open>Reading a response body.\<close>

definition has_key :: "string \<Rightarrow> json \<Rightarrow> bool" where
  "has_key k j = (case j of JObj d \<Rightarrow> map_of d (str k) \<noteq> None | _ \<Rightarrow> False)"

definition member :: "string \<Rightarrow> json \<Rightarrow> json option" where
  "member k j = (case j of JObj d \<Rightarrow> map_of d (str k) | _ \<Rightarrow> None)"

definition error_code :: "json \<Rightarrow> json option" where
  "error_code c = (case member ''error'' c of Some e \<Rightarrow> member ''code'' e | None \<Rightarrow> None)"


section \<open>The event stream endpoint\<close>

text \<open>
  The chunks that \<open>event_stream\<close> yields, by the \<open>data:\<close> object each one carries:
  \<open>ready\<close> with the client id, the capabilities response, \<open>heartbeat\<close> with timestamp
  and client id, \<open>error\<close> with its detail.
\<close>

datatype sse_event =
    Ready string
  | Capabilities json
  | Heartbeat string string
  | Stream_error string

text \<open>
  What happens where the generator is suspended (an \<open>await\<close> or a \<open>yield\<close>): it goes on;
  \<open>asyncio.CancelledError\<close> is raised there; the consumer closes the generator
  (\<open>GeneratorExit\<close>); or an \<open>Exception\<close> is raised there. The first two exceptions
  derive from \<open>BaseException\<close> (since Python 3.8) and pass every \<open>except Exception\<close>.
\<close>

datatype resume = Resumed | Cancelled | Closed | Raised exn

text \<open>One pass through the body of \<open>while True\<close>: the sleep, the clock reading, the yield.\<close>

record tick =
  sleep_10 :: resume
  utcnow :: string
  sent :: resume

text \<open>How the surroundings of one stream behave.\<close>

record stream_env =
  ready_sent :: resume
  grace_sleep :: resume
  capabilities_sent :: resume
  ticks :: "tick list"
  error_sent :: resume

definition max_missed_heartbeats :: nat where
  "max_missed_heartbeats = 3"

text \<open>
  The response built at lines 172-238. As in \<open>initialize_result\<close>, \<open>tr\<close> is what
  evaluating the name \<open>true\<close> gives.
\<close>

definition sse_response :: "settings \<Rightarrow> exn + json \<Rightarrow> exn + json" where
  "sse_response cfg tr =
     (case tr of
        Inl e \<Rightarrow> Inl e
      | Inr t \<Rightarrow> Inr (JObj
         [(str ''jsonrpc'', JStr (str ''2.0'')),
          (str ''id'', JInt 1),
          (str ''result'', JObj
            [(str ''capabilities'', JObj
               [(str ''serverName'', JStr (MCP_SERVER_NAME cfg)),
                (str ''serverVersion'', JStr (MCP_SERVER_VERSION cfg)),
                (str ''tools'', JArr
                   [JObj [(str ''name'', JStr (str ''list_tables'')),
                          (str ''description'', JStr (str ''List all available tables'')),
                          (str ''parameters'', JObj
                             [(str ''type'', JStr (str ''object'')),
                              (str ''properties'', JObj [])])],
                    JObj [(str ''name'', JStr (str ''discover_data'')),
                          (str ''description'', JStr (str ''Discover data in tables'')),
                          (str ''parameters'', JObj
                             [(str ''type'', JStr (str ''object'')),
                              (str ''properties'', JObj
                                 [(str ''table'', JObj
                                     [(str ''type'', JStr (str ''string'')),
                                      (str ''description'', JStr (str ''Table name to discover''))])]),
                              (str ''required'', JArr [JStr (str ''table'')])])],
                    JObj [(str ''name'', JStr (str ''prepare_query'')),
                          (str ''description'', JStr (str ''Prepare a SQL query'')),
                          (str ''parameters'', JObj
                             [(str ''type'', JStr (str ''object'')),
                              (str ''properties'', JObj
                                 [(str ''query'', JObj
                                     [(str ''type'', JStr (str ''string'')),
                                      (str ''description'', JStr (str ''SQL query to prepare''))])]),
                              (str ''required'', JArr [JStr (str ''query'')])])],
                    JObj [(str ''name'', JStr (str ''query'')),
                          (str ''description'', JStr (str ''Execute a SQL query'')),
                          (str ''parameters'', JObj
                             [(str ''type'', JStr (str ''object'')),
                              (str ''properties'', JObj
                                 [(str ''query'', JObj
                                     [(str ''type'', JStr (str ''string'')),
                                      (str ''description'', JStr (str ''SQL query to execute''))])]),
                              (str ''required'', JArr [JStr (str ''query'')])])]]),
                (str ''capabilities'', JObj
                   [(str ''supportedLanguages'', JArr [JStr (str ''sql''), JStr (str ''python'')]),
                    (str ''supportsNotebooks'', t),
                    (str ''supportsInlineCompletions'', t)])])])]))"

text \<open>
  The state of the loop at line 246 after a pass: at the loop head again with the counter,
  left by \<open>break\<close> on cancellation, left by \<open>break\<close> on too many missed heartbeats, or
  left by an exception that no handler of the loop takes.
\<close>

datatype loop_state = Continue nat | Break_cancelled | Break_missed | Exit_closed

text \<open>The handler of \<open>except Exception\<close> in the loop (lines 255-260).\<close>

definition heartbeat_failed :: "nat \<Rightarrow> loop_state" where
  "heartbeat_failed missed_heartbeats =
     (if missed_heartbeats + 1 \<ge> max_missed_heartbeats then Break_missed
      else Continue (missed_heartbeats + 1))"

text \<open>One pass through the loop body (lines 247-260), with the chunks it yields.\<close>

definition heartbeat_step :: "string \<Rightarrow> nat \<Rightarrow> tick \<Rightarrow> sse_event list \<times> loop_state" where
  "heartbeat_step client_id missed_heartbeats t =
     (case sleep_10 t of
        Cancelled \<Rightarrow> ([], Break_cancelled)
      | Closed \<Rightarrow> ([], Exit_closed)
      | Raised e \<Rightarrow> ([], heartbeat_failed missed_heartbeats)
      | Resumed \<Rightarrow>
          ([Heartbeat (utcnow t) client_id],
           case sent t of
             Resumed \<Rightarrow> Continue 0
           | Cancelled \<Rightarrow> Break_cancelled
           | Closed \<Rightarrow> Exit_closed
           | Raised e \<Rightarrow> heartbeat_failed missed_heartbeats))"

text \<open>
  The loop over the passes the surroundings allow; when they are used up the generator
  is suspended at the loop head, which \<open>Continue\<close> with the counter reports.
\<close>

fun heartbeat_loop :: "string \<Rightarrow> nat \<Rightarrow> tick list \<Rightarrow> sse_event list \<times> loop_state" where
  "heartbeat_loop client_id missed_heartbeats [] = ([], Continue missed_heartbeats)"
| "heartbeat_loop client_id missed_heartbeats (t # ts) =
     (case heartbeat_step client_id missed_heartbeats t of
        (evs, Continue m) \<Rightarrow>
          (case heartbeat_loop client_id m ts of (evs', st) \<Rightarrow> (evs @ evs', st))
      | (evs, st) \<Rightarrow> (evs, st))"

text \<open>
  How the body of the outer \<open>try\<close> (lines 166-260) ends: it runs to its end, an
  \<open>Exception\<close> reaches the outer handler, a \<open>BaseException\<close> leaves the generator, or
  the generator is still suspended in the loop.
\<close>

datatype try_end = Completed | Caught exn | Left | Suspended nat

definition at_suspension :: "resume \<Rightarrow> try_end option" where
  "at_suspension r =
     (case r of Resumed \<Rightarrow> None | Cancelled \<Rightarrow> Some Left | Closed \<Rightarrow> Some Left
      | Raised e \<Rightarrow> Some (Caught e))"

definition event_stream_try ::
  "settings \<Rightarrow> string \<Rightarrow> stream_env \<Rightarrow> sse_event list \<times> try_end" where
  "event_stream_try cfg client_id env =
     (case at_suspension (ready_sent env) of
        Some stop \<Rightarrow> ([Ready client_id], stop)
      | None \<Rightarrow>
     (case at_suspension (grace_sleep env) of
        Some stop \<Rightarrow> ([Ready client_id], stop)
      | None \<Rightarrow>
     (case sse_response cfg name_true of
        Inl e \<Rightarrow> ([Ready client_id], Caught e)
      | Inr r \<Rightarrow>
     (case at_suspension (capabilities_sent env) of
        Some stop \<Rightarrow> ([Ready client_id, Capabilities r], stop)
      | None \<Rightarrow>
     (case heartbeat_loop client_id 0 (ticks env) of
        (evs, st) \<Rightarrow>
          (Ready client_id # Capabilities r # evs,
           case st of
             Continue m \<Rightarrow> Suspended m
           | Break_cancelled \<Rightarrow> Completed
           | Break_missed \<Rightarrow> Completed
           | Exit_closed \<Rightarrow> Left))))))"

text \<open>How the generator stands after the surroundings given: ended, left by an exception, or suspended in the loop.\<close>

datatype stream_end = Finished | Propagated | Open_stream nat

text \<open>The generator \<open>event_stream\<close> (lines 165-266) with the outer handler (lines 261-264).\<close>

definition event_stream ::
  "settings \<Rightarrow> (exn \<Rightarrow> string) \<Rightarrow> string \<Rightarrow> stream_env \<Rightarrow> sse_event list \<times> stream_end" where
  "event_stream cfg str_of client_id env =
     (case event_stream_try cfg client_id env of
        (evs, Completed) \<Rightarrow> (evs, Finished)
      | (evs, Left) \<Rightarrow> (evs, Propagated)
      | (evs, Suspended m) \<Rightarrow> (evs, Open_stream m)
      | (evs, Caught e) \<Rightarrow>
          (evs @ [Stream_error (str_of e)],
           case error_sent env of Resumed \<Rightarrow> Finished | _ \<Rightarrow> Propagated))"

section \<open>Notions of the specification\<close>

text \<open>The envelope invariant: exactly one of the keys \<open>result\<close> and \<open>error\<close>.\<close>

definition one_of :: "json \<Rightarrow> bool" where
  "one_of c = (has_key ''result'' c \<noteq> has_key ''error'' c)"

text \<open>A pass whose heartbeat was emitted, and a pass in which an \<open>Exception\<close> was raised.\<close>

definition emit_ok :: "tick \<Rightarrow> bool" where
  "emit_ok t = (sleep_10 t = Resumed \<and> sent t = Resumed)"

definition emit_failed :: "tick \<Rightarrow> bool" where
  "emit_failed t =
     (case sleep_10 t of
        Raised e \<Rightarrow> True
      | Resumed \<Rightarrow> (case sent t of Raised e \<Rightarrow> True | _ \<Rightarrow> False)
      | _ \<Rightarrow> False)"

text \<open>The number of failed passes in a row at the end of a run of passes.\<close>

definition consecutive_failures :: "tick list \<Rightarrow> nat" where
  "consecutive_failures ts = length (takeWhile emit_failed (rev ts))"

text \<open>
  The lifecycle of the specification (section 3 and the table of section 4.3), which the
  source has no counterpart of: \<open>initialize\<close> takes Uninitialized to Initialized,
  \<open>shutdown\<close> takes any state to ShuttingDown.
\<close>

datatype lifecycle = Uninitialized | Initialized | ShuttingDown

definition spec_lifecycle_step :: "lifecycle \<Rightarrow> py_str option \<Rightarrow> lifecycle" where
  "spec_lifecycle_step s m =
     (if m = Some (str ''shutdown'') then ShuttingDown
      else if m = Some (str ''initialize'') \<and> s = Uninitialized then Initialized
      else s)"

text \<open>The method a call names, when its body is a valid envelope.\<close>

definition method_of :: "exn + json \<Rightarrow> py_str option" where
  "method_of rj = (case parse_request rj of Inr rq \<Rightarrow> Some (method' rq) | Inl e \<Rightarrow> None)"

text \<open>
  The precondition of the specification, checked along a run: whenever a call reached
  the Backend, the lifecycle stood at Initialized.
\<close>

fun spec_lifecycle_enforced :: "lifecycle \<Rightarrow> (exn + json) list \<Rightarrow> outcome list \<Rightarrow> bool" where
  "spec_lifecycle_enforced s (rj # rjs) (out # outs) =
     ((invoked out = [] \<or> s = Initialized)
      \<and> spec_lifecycle_enforced (spec_lifecycle_step s (method_of rj)) rjs outs)"
| "spec_lifecycle_enforced s rjs outs = True"

text \<open>A value that is absent or empty, as the required parameters must not be.\<close>

definition lacks_nonempty :: "(py_str \<times> json) list \<Rightarrow> py_str \<Rightarrow> bool" where
  "lacks_nonempty p k =
     (case map_of p k of
        None \<Rightarrow> True
      | Some JNull \<Rightarrow> True
      | Some (JStr s) \<Rightarrow> s = []
      | Some (JArr xs) \<Rightarrow> xs = []
      | Some (JObj d) \<Rightarrow> d = []
      | Some _ \<Rightarrow> False)"

definition required_parameter :: "py_str \<Rightarrow> py_str option" where
  "required_parameter m =
     (if m = str ''discover_data'' then Some (str ''table'')
      else if m = str ''prepare_query'' \<or> m = str ''query'' then Some (str ''query'')
      else None)"

definition known_methods :: "py_str list" where
  "known_methods = map str [''initialize'', ''shutdown'', ''list_tables'', ''discover_data'',
                            ''prepare_query'', ''query'']"

definition backend_methods :: "py_str list" where
  "backend_methods = map str [''list_tables'', ''discover_data'', ''prepare_query'', ''query'']"

text \<open>
  The id as the request body has it, and the ids of the envelope of the specification:
  an integer or a string.
\<close>

definition raw_id :: "(py_str \<times> json) list \<Rightarrow> json" where
  "raw_id d = dict_get d (str ''id'') JNull"

fun well_typed_id :: "json \<Rightarrow> bool" where
  "well_typed_id (JInt n) = True"
| "well_typed_id (JStr s) = True"
| "well_typed_id j = False"

text \<open>An id that a response can carry: an integer, or a string that UTF-8 can encode.\<close>

fun can_encode_id :: "rpc_id \<Rightarrow> bool" where
  "can_encode_id (IdInt n) = True"
| "can_encode_id (IdStr s) = (\<not> has_surrogate s)"

section \<open>Concrete calls\<close>

text \<open>The settings when the environment sets none, and the calls of the end-to-end scenarios.\<close>

definition default_settings :: settings where
  "default_settings =
     \<lparr>MCP_SERVER_NAME = str ''Python FastAPI MCP'', MCP_SERVER_VERSION = str ''1.0.0'',
      DEBUG = False\<rparr>"

definition debug_settings :: settings where
  "debug_settings = default_settings\<lparr>DEBUG := True\<rparr>"

definition str_class :: "exn \<Rightarrow> string" where
  "str_class e =
     (case e of
        JSONDecodeError \<Rightarrow> ''JSONDecodeError''
      | ClientDisconnect \<Rightarrow> ''ClientDisconnect''
      | TypeError v \<Rightarrow> ''TypeError''
      | ValidationError d \<Rightarrow> ''ValidationError''
      | UnboundLocalError n \<Rightarrow> ''UnboundLocalError''
      | AttributeError v a \<Rightarrow> ''AttributeError''
      | NameError n \<Rightarrow> ''NameError''
      | ValueError c \<Rightarrow> ''ValueError''
      | UnicodeEncodeError c \<Rightarrow> ''UnicodeEncodeError''
      | RuntimeError m \<Rightarrow> ''RuntimeError'')"

definition env_1 :: call_env where
  "env_1 = \<lparr>request_id = ''req-1'', start_time = 0, end_time = 1 / 100\<rparr>"

definition env_2 :: call_env where
  "env_2 = \<lparr>request_id = ''req-2'', start_time = 5, end_time = 6\<rparr>"

definition call :: "json \<Rightarrow> string \<Rightarrow> (py_str \<times> json) list \<Rightarrow> exn + json" where
  "call i m p =
     Inr (JObj [(str ''jsonrpc'', JStr (str ''2.0'')), (str ''id'', i),
                (str ''method'', JStr (str m)), (str ''params'', JObj p)])"

definition scenario_1 :: "exn + json" where
  "scenario_1 = call (JInt 1) ''initialize'' []"

definition scenario_2 :: "exn + json" where
  "scenario_2 = call (JInt 2) ''query'' [(str ''query'', JStr (str ''SELECT 1''))]"

definition scenario_3 :: "exn + json" where
  "scenario_3 = call (JInt 3) ''discover_data'' []"

definition not_json :: "exn + json" where
  "not_json = Inl JSONDecodeError"

text \<open>A string id that is one lone surrogate, as the JSON text \<open>"id": "(escape of D800)"\<close> gives.\<close>

definition surrogate_id :: json where
  "surrogate_id = JStr [Surrogate 0xD800]"

definition good_tick :: tick where
  "good_tick = \<lparr>sleep_10 = Resumed, utcnow = ''2025-01-01T00:00:10'', sent = Resumed\<rparr>"

definition bad_tick :: tick where
  "bad_tick = \<lparr>sleep_10 = Raised (RuntimeError ''send''), utcnow = ''2025-01-01T00:00:20'', sent = Resumed\<rparr>"

definition calm_stream :: stream_env where
  "calm_stream =
     \<lparr>ready_sent = Resumed, grace_sleep = Resumed, capabilities_sent = Resumed,
      ticks = [good_tick, good_tick], error_sent = Resumed\<rparr>"

section \<open>Auxiliary facts\<close>

lemmas branch_defs = initialize_branch_def shutdown_branch_def list_tables_branch_def
  discover_data_branch_def prepare_query_branch_def query_branch_def method_not_found_branch_def
  list_tables_try_def discover_data_try_def prepare_query_try_def query_try_def except_backend_def

lemmas stub_defs = list_tables_stub_def discover_data_stub_def prepare_query_stub_def query_stub_def

lemmas validate_defs = parse_request_def MCPRequest_init_def validate_jsonrpc_def validate_id_def
  validate_method_def validate_params_def

subsection \<open>Strings and rendering\<close>

lemma str_eq_iff [simp]: "str a = str b \<longleftrightarrow> a = b"
  by (simp add: str_def inj_map_eq_map inj_def)

lemma str_Nil [simp]: "str s = [] \<longleftrightarrow> s = []"
  by (simp add: str_def)

lemma has_surrogate_str [simp]: "\<not> has_surrogate (str s)"
  by (induction s) (simp_all add: str_def has_surrogate_def)

lemma render_id_json [simp]:
  "out_of_range (id_json i) = False" "surrogates (id_json i) = (\<not> can_encode_id i)"
  by (cases i; simp)+

lemma render_debug_detail [simp]:
  "out_of_range (debug_detail cfg str_of e) = False" "surrogates (debug_detail cfg str_of e) = False"
  by (simp_all add: debug_detail_def)

lemma render_error_content [simp]:
  "out_of_range (error_content i c msg d) = (out_of_range i \<or> out_of_range d)"
  "surrogates (error_content i c msg d) = (surrogates i \<or> surrogates d)"
  by (simp_all add: error_content_def)

lemma render_result_content [simp]:
  "out_of_range (result_content i r) = (out_of_range i \<or> out_of_range r)"
  "surrogates (result_content i r) = (surrogates i \<or> surrogates r)"
  by (simp_all add: result_content_def)

lemma JSONResponse_init_Inr:
  "JSONResponse_init sc c = Inr resp \<Longrightarrow> status_code resp = sc \<and> content resp = c"
  by (auto simp: JSONResponse_init_def split: if_splits)

text \<open>The response of the outer handler is the one its constructor gives: it always renders.\<close>

lemma internal_error_response_renders:
  "JSONResponse_init 500
     (error_content JNull (- 32603) ''Internal error'' (debug_detail cfg str_of e))
   = Inr (internal_error_response cfg str_of e)"
  by (simp add: JSONResponse_init_def internal_error_response_def)

subsection \<open>The name \<open>true\<close>\<close>

lemma initialize_result_name_true: "initialize_result cfg name_true = Inl (NameError ''true'')"
  by (simp add: initialize_result_def name_true_def)

lemma sse_response_name_true: "sse_response cfg name_true = Inl (NameError ''true'')"
  by (simp add: sse_response_def name_true_def)

text \<open>
  Whatever the name \<open>true\<close> stood for, the two displays would build the same object: the
  stream's response is the \<open>initialize\<close> result under the id 1.
\<close>

lemma capabilities_paths_agree:
  "sse_response cfg tr =
     (case initialize_result cfg tr of Inl e \<Rightarrow> Inl e | Inr r \<Rightarrow> Inr (result_content (JInt 1) r))"
  by (cases tr) (simp_all add: sse_response_def initialize_result_def result_content_def)

lemma initialize_branch_raises: "\<exists>l e. initialize_branch cfg rq = (l, [], Inl e)"
  by (auto simp: initialize_branch_def Let_def initialize_result_name_true split: sum.splits)

subsection \<open>Validation\<close>

lemma parse_request_fields:
  assumes "parse_request (Inr (JObj d)) = Inr rq"
  shows "validate_id d = Some (id' rq)"
    and "map_of d (str ''method'') = Some (JStr (method' rq))"
  using assms
  by (auto simp: parse_request_def MCPRequest_init_def validate_method_def
      split: option.splits json.splits)

text \<open>An id that is an integer or a string is taken as it is.\<close>

lemma validate_id_well_typed:
  assumes "validate_id d = Some i" and "well_typed_id (raw_id d)"
  shows "id_json i = raw_id d"
  using assms
  by (auto simp: validate_id_def raw_id_def dict_get_def split: option.splits json.splits)

lemma parse_request_scenario_1:
  "parse_request scenario_1 =
     Inr \<lparr>jsonrpc = str ''2.0'', id' = IdInt 1, method' = str ''initialize'', params = Some []\<rparr>"
  by (simp add: validate_defs scenario_1_def call_def)

lemma parse_request_scenario_2:
  "parse_request scenario_2 =
     Inr \<lparr>jsonrpc = str ''2.0'', id' = IdInt 2, method' = str ''query'',
          params = Some [(str ''query'', JStr (str ''SELECT 1''))]\<rparr>"
  by (simp add: validate_defs scenario_2_def call_def)

lemma parse_request_scenario_3:
  "parse_request scenario_3 =
     Inr \<lparr>jsonrpc = str ''2.0'', id' = IdInt 3, method' = str ''discover_data'', params = Some []\<rparr>"
  by (simp add: validate_defs scenario_3_def call_def)

text \<open>A \<open>bool\<close> id and a float id without fractional part are converted, not rejected.\<close>

lemma parse_request_converts_id:
  "parse_request (call (JBool True) ''list_tables'' []) =
     Inr \<lparr>jsonrpc = str ''2.0'', id' = IdInt 1, method' = str ''list_tables'', params = Some []\<rparr>"
  "parse_request (call (JFloat (Finite 1)) ''list_tables'' []) =
     Inr \<lparr>jsonrpc = str ''2.0'', id' = IdInt 1, method' = str ''list_tables'', params = Some []\<rparr>"
  by (simp_all add: validate_defs int_of_float_def call_def)

subsection \<open>The endpoint in terms of the dispatch\<close>

lemma mcp_post_valid:
  assumes "parse_request rj = Inr rq" and "dispatch cfg str_of rq = (l, c, r)"
  shows "response (mcp_post cfg str_of env rj) =
           (case r of Inr resp \<Rightarrow> resp | Inl e \<Rightarrow> internal_error_response cfg str_of e)"
    and "invoked (mcp_post cfg str_of env rj) = c"
  using assms by (auto simp: mcp_post_def mcp_post_try_def split: sum.splits)

lemma mcp_post_env:
  "response (mcp_post cfg str_of env rj) = response (mcp_post cfg str_of env' rj)"
  "invoked (mcp_post cfg str_of env rj) = invoked (mcp_post cfg str_of env' rj)"
  by (auto simp: mcp_post_def mcp_post_try_def split: sum.splits prod.splits)

lemma serve_outcomes:
  "snd (serve cfg str_of lg calls) = map (\<lambda>(env, rj). mcp_post cfg str_of env rj) calls"
  by (induction calls arbitrary: lg) (auto simp: Let_def split_beta)

lemma serve_log:
  "fst (serve cfg str_of lg calls) =
     lg @ concat (map (\<lambda>(env, rj). logged (mcp_post cfg str_of env rj)) calls)"
  by (induction calls arbitrary: lg) (auto simp: Let_def split_beta)

subsection \<open>Exactly one of \<open>result\<close> and \<open>error\<close>\<close>

lemma one_of_result: "one_of (result_content i r)"
  by (simp add: one_of_def has_key_def result_content_def)

lemma one_of_error: "one_of (error_content i c m d)"
  by (simp add: one_of_def has_key_def error_content_def)

lemma one_of_init_result:
  "JSONResponse_init sc (result_content i r) = Inr resp \<Longrightarrow> one_of (content resp)"
  by (auto dest: JSONResponse_init_Inr simp: one_of_result)

lemma one_of_init_error:
  "JSONResponse_init sc (error_content i c m d) = Inr resp \<Longrightarrow> one_of (content resp)"
  by (auto dest: JSONResponse_init_Inr simp: one_of_error)

lemma except_backend_one_of:
  assumes "except_backend cfg str_of rq doing (calls, r) = (l, c, Inr resp)"
    and "\<And>resp'. r = Inr resp' \<Longrightarrow> one_of (content resp')"
  shows "one_of (content resp)"
  using assms
  by (auto simp: except_backend_def application_error_response_def split: sum.splits
      dest: one_of_init_error)

lemma dispatch_one_of: "dispatch cfg str_of rq = (l, c, Inr resp) \<Longrightarrow> one_of (content resp)"
  by (auto simp: dispatch_def branch_defs stub_defs Let_def application_error_response_def
      invalid_params_response_def initialize_result_name_true
      split: if_splits sum.splits dest: one_of_init_error one_of_init_result)

lemma parse_error_one_of:
  "parse_error_response cfg str_of b e = Inr resp \<Longrightarrow> one_of (content resp)"
  by (auto simp: parse_error_response_def split: option.splits dest: one_of_init_error)

lemma try_one_of: "mcp_post_try cfg str_of env rj = (l, c, Inr resp) \<Longrightarrow> one_of (content resp)"
  by (auto simp: mcp_post_try_def split: sum.splits prod.splits
      dest: dispatch_one_of parse_error_one_of)

subsection \<open>What holds of the id and of unknown methods\<close>

text \<open>A dispatched call whose id cannot be encoded is answered by the outer handler.\<close>

lemma dispatch_unencodable_id:
  assumes "\<not> can_encode_id (id' rq)"
  shows "\<exists>l c e. dispatch cfg str_of rq = (l, c, Inl e)"
  using assms
  by (auto simp: dispatch_def branch_defs stub_defs Let_def application_error_response_def
      invalid_params_response_def initialize_result_name_true JSONResponse_init_def
      split: sum.splits)

lemma unencodable_id_internal_error:
  assumes "parse_request rj = Inr rq" and "\<not> can_encode_id (id' rq)"
  shows "\<exists>e. response (mcp_post cfg str_of env rj) = internal_error_response cfg str_of e"
proof -
  obtain l c e where "dispatch cfg str_of rq = (l, c, Inl e)"
    using dispatch_unencodable_id [OF assms(2)] by blast
  from mcp_post_valid(1) [OF assms(1) this] show ?thesis by auto
qed

text \<open>For every method but \<open>initialize\<close>, an id that can be encoded is the id of the response.\<close>

lemma id_round_trip_other_methods:
  assumes "parse_request rj = Inr rq" and "method' rq \<noteq> str ''initialize''"
    and "can_encode_id (id' rq)" and "\<not> has_surrogate (method' rq)"
  shows "member ''id'' (content (response (mcp_post cfg str_of env rj))) = Some (id_json (id' rq))"
proof -
  obtain l c r where d: "dispatch cfg str_of rq = (l, c, r)"
    by (cases "dispatch cfg str_of rq") auto
  from d assms(2,3,4)
  have "\<exists>resp. r = Inr resp \<and> member ''id'' (content resp) = Some (id_json (id' rq))"
    by (auto simp: dispatch_def branch_defs stub_defs Let_def member_def result_content_def
        error_content_def application_error_response_def invalid_params_response_def
        JSONResponse_init_def split: if_splits)
  then show ?thesis
    using mcp_post_valid(1) [OF assms(1) d] by auto
qed

lemma method_not_found:
  assumes "parse_request rj = Inr rq" and "method' rq \<notin> set known_methods"
    and "can_encode_id (id' rq)" and "\<not> has_surrogate (method' rq)"
  shows "response (mcp_post cfg str_of env rj) =
           \<lparr>status_code = 200,
            content = error_content (id_json (id' rq)) (- 32601) ''Method not found''
                        (JObj [(str ''method'', JStr (method' rq))])\<rparr>"
proof -
  from assms(2) have "dispatch cfg str_of rq = method_not_found_branch rq"
    by (simp add: dispatch_def known_methods_def)
  then show ?thesis
    using mcp_post_valid(1) [OF assms(1), of cfg str_of] assms(3,4)
    by (simp add: method_not_found_branch_def JSONResponse_init_def)
qed

lemma initialize_never_succeeds:
  assumes "parse_request rj = Inr rq" and "method' rq = str ''initialize''"
  shows "\<exists>e. response (mcp_post cfg str_of env rj) = internal_error_response cfg str_of e"
proof -
  obtain l e where "initialize_branch cfg rq = (l, [], Inl e)"
    using initialize_branch_raises by blast
  with assms(2) have "dispatch cfg str_of rq = (l, [], Inl e)"
    by (simp add: dispatch_def)
  from mcp_post_valid(1) [OF assms(1) this] show ?thesis by auto
qed

text \<open>The calls of scenarios 2 and 3, and scenario 1 with the debug flag set.\<close>

lemma scenario_2_response:
  "response (mcp_post default_settings str_class env_1 scenario_2) =
     \<lparr>status_code = 200,
      content = result_content (JInt 2) (JObj
        [(str ''columns'', JArr [JStr (str ''id''), JStr (str ''name'')]),
         (str ''rows'', JArr [JArr [JInt 1, JStr (str ''Example'')],
                              JArr [JInt 2, JStr (str ''Test'')]])])\<rparr>"
  by (simp add: mcp_post_def mcp_post_try_def parse_request_scenario_2 dispatch_def
      branch_defs params_or_empty_def dict_get_def query_stub_def JSONResponse_init_def)

lemma scenario_3_response:
  "response (mcp_post default_settings str_class env_1 scenario_3) =
     \<lparr>status_code = 200,
      content = error_content (JInt 3) (- 32602) ''Invalid params''
                  (JObj [(str ''detail'', JStr (str ''Missing required parameter: table''))])\<rparr>"
  by (simp add: mcp_post_def mcp_post_try_def parse_request_scenario_3 dispatch_def
      branch_defs params_or_empty_def dict_get_def invalid_params_response_def
      JSONResponse_init_def)

lemma scenario_1_debug_response:
  "response (mcp_post debug_settings str_class env_1 scenario_1) =
     \<lparr>status_code = 500,
      content = error_content JNull (- 32603) ''Internal error''
                  (JObj [(str ''detail'', JStr (str ''NameError''))])\<rparr>"
  by (simp add: mcp_post_def mcp_post_try_def parse_request_scenario_1 dispatch_def
      initialize_branch_def params_or_empty_def dict_get_def attr_get_def
      initialize_result_name_true internal_error_response_def debug_detail_def
      debug_settings_def default_settings_def str_class_def)

text \<open>A \<open>bool\<close> id is answered under the int it was converted to.\<close>

lemma bool_id_response:
  "response (mcp_post default_settings str_class env_1 (call (JBool True) ''list_tables'' [])) =
     \<lparr>status_code = 200,
      content = result_content (JInt 1)
        (JObj [(str ''tables'', JArr [JStr (str ''users''), JStr (str ''products''),
                                      JStr (str ''orders'')])])\<rparr>"
  by (simp add: mcp_post_def mcp_post_try_def parse_request_converts_id dispatch_def
      branch_defs list_tables_stub_def JSONResponse_init_def)

text \<open>
  A \<open>list_tables\<close> call under an id that is a lone surrogate: the Backend is reached, the
  result cannot be rendered, nor can the error -32000, and the outer handler answers.
\<close>

lemma surrogate_id_list_tables:
  "response (mcp_post default_settings str_class env_1 (call surrogate_id ''list_tables'' [])) =
     \<lparr>status_code = 500, content = error_content JNull (- 32603) ''Internal error'' JNull\<rparr>"
  "invoked (mcp_post default_settings str_class env_1 (call surrogate_id ''list_tables'' []))
     = [List_tables]"
  by (simp_all add: mcp_post_def mcp_post_try_def validate_defs call_def surrogate_id_def
      dispatch_def branch_defs list_tables_stub_def JSONResponse_init_def has_surrogate_def
      application_error_response_def internal_error_response_def debug_detail_def
      default_settings_def)

text \<open>An unknown method whose name holds a lone surrogate cannot be named in \<open>data.method\<close>.\<close>

lemma surrogate_method:
  "response (mcp_post default_settings str_class env_1
       (Inr (JObj [(str ''id'', JInt 7), (str ''method'', JStr [Surrogate 0xD800])]))) =
     \<lparr>status_code = 500, content = error_content JNull (- 32603) ''Internal error'' JNull\<rparr>"
  by (simp add: mcp_post_def mcp_post_try_def validate_defs str_def
      dispatch_def branch_defs JSONResponse_init_def has_surrogate_def
      internal_error_response_def debug_detail_def default_settings_def)

text \<open>An \<open>initialize\<close> call whose \<open>clientInfo\<close> is no dict fails before the result is built.\<close>

lemma initialize_client_info_not_a_dict:
  "initialize_branch cfg
     \<lparr>jsonrpc = str ''2.0'', id' = IdInt 1, method' = str ''initialize'',
      params = Some [(str ''clientInfo'', JStr (str ''vscode''))]\<rparr>
   = ([], [], Inl (AttributeError (JStr (str ''vscode'')) ''get''))"
  by (simp add: initialize_branch_def params_or_empty_def dict_get_def attr_get_def)

text \<open>
  A decoded body that is no valid envelope is answered with the parse error and the id
  found in it, when that id can be rendered; otherwise the outer handler answers.
\<close>

lemma invalid_envelope_parse_error:
  assumes "parse_request (Inr body) = Inl e"
  shows "response (mcp_post cfg str_of env (Inr body)) =
     (let i = (case body of JObj d \<Rightarrow> raw_id d | _ \<Rightarrow> JNull) in
      if out_of_range i then internal_error_response cfg str_of
           (ValueError (error_content i (- 32700) ''Parse error'' (debug_detail cfg str_of e)))
      else if surrogates i then internal_error_response cfg str_of
           (UnicodeEncodeError (error_content i (- 32700) ''Parse error'' (debug_detail cfg str_of e)))
      else \<lparr>status_code = 400,
            content = error_content i (- 32700) ''Parse error'' (debug_detail cfg str_of e)\<rparr>)"
  using assms
  by (cases body)
    (simp_all add: mcp_post_def mcp_post_try_def parse_error_response_def JSONResponse_init_def
      raw_id_def Let_def)

lemma nan_id_internal_error:
  "response (mcp_post default_settings str_class env_1
       (Inr (JObj [(str ''id'', JFloat NaN), (str ''method'', JStr (str ''query''))]))) =
     \<lparr>status_code = 500, content = error_content JNull (- 32603) ''Internal error'' JNull\<rparr>"
  by (simp add: mcp_post_def mcp_post_try_def validate_defs int_of_float_def
      parse_error_response_def dict_get_def JSONResponse_init_def
      internal_error_response_def debug_detail_def default_settings_def)

lemma lacks_nonempty_not_truthy: "lacks_nonempty p k \<Longrightarrow> \<not> truthy (dict_get p k JNull)"
  by (auto simp: lacks_nonempty_def dict_get_def split: option.splits json.splits)

subsection \<open>The heartbeat loop as written\<close>

lemma heartbeat_loop_snoc:
  "snd (heartbeat_loop cid m (ts @ [t])) =
     (case snd (heartbeat_loop cid m ts) of
        Continue k \<Rightarrow> snd (heartbeat_step cid k t)
      | st \<Rightarrow> st)"
proof (induction ts arbitrary: m)
  case Nil
  show ?case by (auto split: prod.splits loop_state.splits)
next
  case (Cons a ts)
  obtain evs st where s: "heartbeat_step cid m a = (evs, st)"
    by (cases "heartbeat_step cid m a") auto
  show ?case
  proof (cases st)
    case (Continue k)
    with s Cons.IH [of k] show ?thesis
      by (simp add: split_beta)
  qed (use s in simp_all)
qed

lemma step_ok: "emit_ok t \<Longrightarrow> snd (heartbeat_step cid m t) = Continue 0"
  by (simp add: emit_ok_def heartbeat_step_def)

lemma step_failed: "emit_failed t \<Longrightarrow> snd (heartbeat_step cid m t) = heartbeat_failed m"
  by (auto simp: emit_failed_def heartbeat_step_def split: resume.splits)

lemma step_Continue:
  "snd (heartbeat_step cid k t) = Continue m \<Longrightarrow>
     (emit_ok t \<and> \<not> emit_failed t \<and> m = 0) \<or> (emit_failed t \<and> m = k + 1 \<and> k + 1 < 3)"
  by (auto simp: heartbeat_step_def heartbeat_failed_def max_missed_heartbeats_def emit_ok_def
      emit_failed_def split: resume.splits if_splits)

lemma consecutive_failures_snoc:
  "consecutive_failures (ts @ [t]) = (if emit_failed t then consecutive_failures ts + 1 else 0)"
  by (simp add: consecutive_failures_def)

lemma counter_is_consecutive_failures:
  "snd (heartbeat_loop cid 0 ts) = Continue m \<Longrightarrow> m = consecutive_failures ts \<and> m < 3"
proof (induction ts arbitrary: m rule: rev_induct)
  case Nil
  then show ?case by (simp add: consecutive_failures_def)
next
  case (snoc t ts)
  from snoc.prems obtain k where k: "snd (heartbeat_loop cid 0 ts) = Continue k"
    and st: "snd (heartbeat_step cid k t) = Continue m"
    by (auto simp: heartbeat_loop_snoc split: loop_state.splits)
  from snoc.IH [OF k] have "k = consecutive_failures ts" by simp
  with step_Continue [OF st] show ?case
    by (auto simp: consecutive_failures_snoc)
qed

text \<open>
  Taken by itself, the loop of lines 241-260 counts as the specification says: the
  counter is the number of failed passes in a row, a heartbeat resets it, and the third
  failure in a row ends the loop. No stream reaches this loop.
\<close>

lemma loop_counter_as_written:
  assumes "snd (heartbeat_loop client_id 0 ts) = Continue m"
  shows "m = consecutive_failures ts \<and> m < 3
       \<and> (emit_ok t \<longrightarrow> snd (heartbeat_loop client_id 0 (ts @ [t])) = Continue 0)
       \<and> (emit_failed t \<longrightarrow> snd (heartbeat_loop client_id 0 (ts @ [t])) =
             (if consecutive_failures ts + 1 = 3 then Break_missed else Continue (m + 1)))"
proof -
  from counter_is_consecutive_failures [OF assms] have m: "m = consecutive_failures ts" "m < 3"
    by simp_all
  have ok: "emit_ok t \<longrightarrow> snd (heartbeat_loop client_id 0 (ts @ [t])) = Continue 0"
    using assms by (simp add: heartbeat_loop_snoc step_ok)
  have "emit_failed t \<longrightarrow> snd (heartbeat_loop client_id 0 (ts @ [t])) = heartbeat_failed m"
    using assms by (simp add: heartbeat_loop_snoc step_failed)
  with m ok show ?thesis
    by (auto simp: heartbeat_failed_def max_missed_heartbeats_def)
qed

subsection \<open>The stream never reaches the loop\<close>

lemma event_stream_try_cases:
  "event_stream_try cfg client_id env =
     ([Ready client_id],
      case at_suspension (ready_sent env) of
        Some stop \<Rightarrow> stop
      | None \<Rightarrow> (case at_suspension (grace_sleep env) of
                   Some stop \<Rightarrow> stop
                 | None \<Rightarrow> Caught (NameError ''true'')))"
  by (simp add: event_stream_try_def sse_response_name_true split: option.splits)

section \<open>The claims\<close>

text \<open>
  C1. Whatever \<open>request.json()\<close> gives for a call (a decoded value of any shape, or an
  exception for a body that is not JSON), the content of the response of \<open>mcp_post\<close> has
  exactly one of the keys \<open>result\<close> and \<open>error\<close>.
\<close>

theorem exactly_one_of_result_and_error:
  "has_key ''result'' (content (response (mcp_post cfg str_of env rj)))
     \<noteq> has_key ''error'' (content (response (mcp_post cfg str_of env rj)))"
proof -
  obtain l c r where t: "mcp_post_try cfg str_of env rj = (l, c, r)"
    by (cases "mcp_post_try cfg str_of env rj") auto
  show ?thesis
  proof (cases r)
    case (Inl e)
    with t have "content (response (mcp_post cfg str_of env rj))
        = error_content JNull (- 32603) ''Internal error'' (debug_detail cfg str_of e)"
      by (simp add: mcp_post_def internal_error_response_def)
    then show ?thesis using one_of_error by (simp add: one_of_def)
  next
    case (Inr resp)
    with t have "response (mcp_post cfg str_of env rj) = resp"
      by (simp add: mcp_post_def)
    then show ?thesis using try_one_of [of cfg str_of env rj l c resp] t Inr
      by (simp add: one_of_def)
  qed
qed

text \<open>C1 at a body that is not JSON, at a body that is no object, and at an object without id.\<close>

theorem exactly_one_of_result_and_error_witness:
  "has_key ''result'' (content (response (mcp_post default_settings str_class env_1 not_json)))
     \<noteq> has_key ''error'' (content (response (mcp_post default_settings str_class env_1 not_json)))
   \<and> has_key ''result'' (content (response (mcp_post default_settings str_class env_1 (Inr (JArr [])))))
     \<noteq> has_key ''error'' (content (response (mcp_post default_settings str_class env_1 (Inr (JArr [])))))
   \<and> has_key ''result'' (content (response (mcp_post default_settings str_class env_1 (Inr (JObj [])))))
     \<noteq> has_key ''error'' (content (response (mcp_post default_settings str_class env_1 (Inr (JObj [])))))"
  using exactly_one_of_result_and_error [of default_settings str_class env_1 not_json]
    exactly_one_of_result_and_error [of default_settings str_class env_1 "Inr (JArr [])"]
    exactly_one_of_result_and_error [of default_settings str_class env_1 "Inr (JObj [])"]
  by simp

text \<open>
  C2. The call of scenario 1, a valid envelope with id 1 and method \<open>initialize\<close>, is
  answered with status 500, the error -32603 and the id null: the id of the request is
  not the id of the response.
\<close>

theorem initialize_loses_id:
  "parse_request scenario_1 =
     Inr \<lparr>jsonrpc = str ''2.0'', id' = IdInt 1, method' = str ''initialize'', params = Some []\<rparr>
   \<and> response (mcp_post default_settings str_class env_1 scenario_1) =
       \<lparr>status_code = 500, content = error_content JNull (- 32603) ''Internal error'' JNull\<rparr>
   \<and> member ''id'' (content (response (mcp_post default_settings str_class env_1 scenario_1)))
       = Some JNull"
  by (simp add: mcp_post_def mcp_post_try_def validate_defs
      scenario_1_def call_def dispatch_def initialize_branch_def params_or_empty_def dict_get_def
      attr_get_def initialize_result_name_true internal_error_response_def debug_detail_def
      default_settings_def member_def error_content_def)

text \<open>
  C3. When \<open>request.json()\<close> raises, as it does for a body that is not JSON, the response
  is the internal error -32603 with status 500 and the id null, not the parse error
  -32700: the handler of the parse error reads the local \<open>body\<close>, which is unbound.
\<close>

theorem undecodable_body_internal_error:
  "response (mcp_post cfg str_of env (Inl e)) =
     \<lparr>status_code = 500,
      content = error_content JNull (- 32603) ''Internal error''
                  (debug_detail cfg str_of (UnboundLocalError ''body''))\<rparr>"
  by (simp add: mcp_post_def mcp_post_try_def parse_request_def parse_error_response_def
      internal_error_response_def)

text \<open>
  C4, as stated, fails: a \<open>query\<close> call that no \<open>initialize\<close> precedes reaches the
  Backend while the lifecycle of the specification stands at Uninitialized.
\<close>

theorem lifecycle_not_enforced:
  "\<not> spec_lifecycle_enforced Uninitialized [scenario_2]
        (snd (serve default_settings str_class [] [(env_1, scenario_2)]))"
  by (simp add: Let_def mcp_post_def mcp_post_try_def validate_defs
      scenario_2_def call_def dispatch_def branch_defs params_or_empty_def dict_get_def
      query_stub_def JSONResponse_init_def)

text \<open>
  C4, amended. The dispatcher keeps no lifecycle state: a call of \<open>list_tables\<close>, or of
  \<open>discover_data\<close>, \<open>prepare_query\<close> or \<open>query\<close> with a required parameter that is
  not empty, reaches the Backend whatever calls the process served before it, and it is
  answered with a result when its id can be encoded in a response.
\<close>

theorem backend_call_whatever_came_before:
  assumes "parse_request rj = Inr rq"
    and "method' rq \<in> set backend_methods"
    and "\<And>k. required_parameter (method' rq) = Some k
            \<Longrightarrow> truthy (dict_get (params_or_empty rq) k JNull)"
  shows "invoked (last (snd (serve cfg str_of lg (hist @ [(env, rj)])))) \<noteq> []
       \<and> (can_encode_id (id' rq) \<longrightarrow>
            status_code (response (last (snd (serve cfg str_of lg (hist @ [(env, rj)]))))) = 200
          \<and> has_key ''result''
              (content (response (last (snd (serve cfg str_of lg (hist @ [(env, rj)])))))))"
proof -
  have last: "last (snd (serve cfg str_of lg (hist @ [(env, rj)]))) = mcp_post cfg str_of env rj"
    by (simp add: serve_outcomes)
  obtain l c r where d: "dispatch cfg str_of rq = (l, c, r)"
    by (cases "dispatch cfg str_of rq") auto
  from assms(2,3) d
  have "c \<noteq> [] \<and> (can_encode_id (id' rq) \<longrightarrow>
          (\<exists>resp. r = Inr resp \<and> status_code resp = 200 \<and> has_key ''result'' (content resp)))"
    by (auto simp: required_parameter_def backend_methods_def dispatch_def branch_defs stub_defs
        Let_def has_key_def result_content_def JSONResponse_init_def
        application_error_response_def split: if_splits)
  then show ?thesis
    using mcp_post_valid [OF assms(1) d] by (auto simp: last)
qed

text \<open>C4, amended, at the query of scenario 2 served right after a \<open>shutdown\<close>.\<close>

theorem backend_call_whatever_came_before_witness:
  "invoked (last (snd (serve default_settings str_class []
              ([(env_1, call (JInt 9) ''shutdown'' [])] @ [(env_2, scenario_2)]))))
     = [Execute_query (JStr (str ''SELECT 1''))]
   \<and> status_code (response (last (snd (serve default_settings str_class []
              ([(env_1, call (JInt 9) ''shutdown'' [])] @ [(env_2, scenario_2)]))))) = 200
   \<and> has_key ''result'' (content (response (last (snd (serve default_settings str_class []
              ([(env_1, call (JInt 9) ''shutdown'' [])] @ [(env_2, scenario_2)]))))))"
proof -
  let ?rq = "\<lparr>jsonrpc = str ''2.0'', id' = IdInt 2, method' = str ''query'',
              params = Some [(str ''query'', JStr (str ''SELECT 1''))]\<rparr>"
  have m: "method' ?rq \<in> set backend_methods"
    by (simp add: backend_methods_def)
  have t: "\<And>k. required_parameter (method' ?rq) = Some k
             \<Longrightarrow> truthy (dict_get (params_or_empty ?rq) k JNull)"
    by (auto simp: required_parameter_def params_or_empty_def dict_get_def)
  have e: "can_encode_id (id' ?rq)"
    by simp
  have i: "invoked (last (snd (serve default_settings str_class []
              ([(env_1, call (JInt 9) ''shutdown'' [])] @ [(env_2, scenario_2)]))))
            = [Execute_query (JStr (str ''SELECT 1''))]"
    by (simp add: serve_outcomes mcp_post_def mcp_post_try_def parse_request_scenario_2
        dispatch_def branch_defs params_or_empty_def dict_get_def query_stub_def
        JSONResponse_init_def del: serve.simps)
  from backend_call_whatever_came_before [OF parse_request_scenario_2 m t,
      of default_settings str_class "[]" "[(env_1, call (JInt 9) ''shutdown'' [])]" env_2] i e
  show ?thesis by simp
qed

text \<open>
  C5, as stated, fails: the \<open>discover_data\<close> call of scenario 3, a valid envelope with
  no \<open>table\<close>, sent under a string id that is a lone surrogate, is answered with status
  500, the error -32603 and the id null, not with the error -32602 under its id.
\<close>

theorem missing_parameter_unencodable_id:
  "parse_request (call surrogate_id ''discover_data'' []) =
     Inr \<lparr>jsonrpc = str ''2.0'', id' = IdStr [Surrogate 0xD800], method' = str ''discover_data'',
          params = Some []\<rparr>
   \<and> lacks_nonempty [] (str ''table'')
   \<and> response (mcp_post default_settings str_class env_1 (call surrogate_id ''discover_data'' [])) =
       \<lparr>status_code = 500, content = error_content JNull (- 32603) ''Internal error'' JNull\<rparr>
   \<and> error_code (content (response
         (mcp_post default_settings str_class env_1 (call surrogate_id ''discover_data'' []))))
       \<noteq> Some (JInt (- 32602))"
  by (simp add: mcp_post_def mcp_post_try_def validate_defs call_def surrogate_id_def
      lacks_nonempty_def dispatch_def branch_defs params_or_empty_def dict_get_def
      invalid_params_response_def application_error_response_def JSONResponse_init_def
      has_surrogate_def internal_error_response_def debug_detail_def default_settings_def
      error_code_def member_def error_content_def)

text \<open>
  C5, amended. A valid envelope whose method is \<open>discover_data\<close>, \<open>prepare_query\<close> or
  \<open>query\<close> and whose params lack the required parameter (\<open>table\<close> for the first,
  \<open>query\<close> for the other two), or have it empty, does not reach the Backend; and when
  its id can be encoded in a response, it is answered with the error -32602 and no
  result under the id of the request, which for an integer or a string is the id as
  the body has it.
\<close>

theorem missing_parameter_invalid_params:
  assumes "parse_request (Inr (JObj d)) = Inr rq"
    and "required_parameter (method' rq) = Some k"
    and "lacks_nonempty (params_or_empty rq) k"
  shows "invoked (mcp_post cfg str_of env (Inr (JObj d))) = []
       \<and> (can_encode_id (id' rq) \<longrightarrow>
            error_code (content (response (mcp_post cfg str_of env (Inr (JObj d)))))
              = Some (JInt (- 32602))
          \<and> \<not> has_key ''result'' (content (response (mcp_post cfg str_of env (Inr (JObj d)))))
          \<and> member ''id'' (content (response (mcp_post cfg str_of env (Inr (JObj d)))))
              = Some (id_json (id' rq)))
       \<and> (well_typed_id (raw_id d) \<longrightarrow> id_json (id' rq) = raw_id d)"
proof -
  from assms(3) have nt: "\<not> truthy (dict_get (params_or_empty rq) k JNull)"
    by (rule lacks_nonempty_not_truthy)
  obtain l c r where dd: "dispatch cfg str_of rq = (l, c, r)"
    by (cases "dispatch cfg str_of rq") auto
  from assms(2) nt dd have c: "c = []"
    by (auto simp: required_parameter_def dispatch_def branch_defs Let_def
        split: if_splits sum.splits)
  from assms(2) nt dd
  have r: "can_encode_id (id' rq) \<longrightarrow>
             (\<exists>resp. r = Inr resp \<and> error_code (content resp) = Some (JInt (- 32602))
                \<and> \<not> has_key ''result'' (content resp)
                \<and> member ''id'' (content resp) = Some (id_json (id' rq)))"
    by (auto simp: required_parameter_def dispatch_def branch_defs Let_def
        invalid_params_response_def JSONResponse_init_def error_content_def error_code_def
        member_def has_key_def split: if_splits)
  have w: "well_typed_id (raw_id d) \<longrightarrow> id_json (id' rq) = raw_id d"
    using validate_id_well_typed [OF parse_request_fields(1) [OF assms(1)]] by simp
  from mcp_post_valid [OF assms(1) dd] c r w show ?thesis
    by auto
qed

text \<open>C5, amended, at the call of scenario 3: \<open>discover_data\<close> with empty params and id 3.\<close>

theorem missing_parameter_invalid_params_witness:
  "error_code (content (response (mcp_post default_settings str_class env_1 scenario_3)))
     = Some (JInt (- 32602))
   \<and> member ''id'' (content (response (mcp_post default_settings str_class env_1 scenario_3)))
     = Some (JInt 3)
   \<and> invoked (mcp_post default_settings str_class env_1 scenario_3) = []"
proof -
  let ?d = "[(str ''jsonrpc'', JStr (str ''2.0'')), (str ''id'', JInt 3),
             (str ''method'', JStr (str ''discover_data'')), (str ''params'', JObj [])]"
  let ?rq = "\<lparr>jsonrpc = str ''2.0'', id' = IdInt 3, method' = str ''discover_data'',
              params = Some []\<rparr>"
  have s: "scenario_3 = Inr (JObj ?d)"
    by (simp add: scenario_3_def call_def)
  have p: "parse_request (Inr (JObj ?d)) = Inr ?rq"
    using parse_request_scenario_3 by (simp add: s)
  have r: "required_parameter (method' ?rq) = Some (str ''table'')"
    by (simp add: required_parameter_def)
  have l: "lacks_nonempty (params_or_empty ?rq) (str ''table'')"
    by (simp add: lacks_nonempty_def params_or_empty_def)
  have e: "can_encode_id (id' ?rq)" and w: "well_typed_id (raw_id ?d)"
    by (simp_all add: raw_id_def dict_get_def)
  from missing_parameter_invalid_params [OF p r l, of default_settings str_class env_1] e w
  show ?thesis by (simp add: s)
qed

text \<open>
  C6. No stream reaches the heartbeat loop: what a stream yields and how it ends does not
  depend on the passes of the loop, no stream yields a heartbeat or stays open in the
  loop, and a stream on which every pass would emit its heartbeat is closed after the
  \<open>error\<close> event, without any failed emit.
\<close>

theorem session_closes_without_failures:
  "event_stream cfg str_of client_id (env\<lparr>ticks := ts\<rparr>) = event_stream cfg str_of client_id env
   \<and> Heartbeat t c \<notin> set (fst (event_stream cfg str_of client_id env))
   \<and> snd (event_stream cfg str_of client_id env) \<noteq> Open_stream m
   \<and> event_stream default_settings str_class ''client-1''
        (calm_stream\<lparr>ticks := [good_tick, good_tick, good_tick]\<rparr>)
       = ([Ready ''client-1'', Stream_error ''NameError''], Finished)"
  by (auto simp: event_stream_def event_stream_try_cases at_suspension_def calm_stream_def
      str_class_def split: resume.splits)

text \<open>
  C7. Two \<open>initialize\<close> calls in a row (scenario 1 twice): both are answered with status
  500 and the error -32603, neither with the capabilities.
\<close>

theorem initialize_twice_fails:
  "map response (snd (serve default_settings str_class []
                        [(env_1, scenario_1), (env_2, scenario_1)])) =
     [\<lparr>status_code = 500, content = error_content JNull (- 32603) ''Internal error'' JNull\<rparr>,
      \<lparr>status_code = 500, content = error_content JNull (- 32603) ''Internal error'' JNull\<rparr>]"
  by (simp add: Let_def mcp_post_def mcp_post_try_def validate_defs
      scenario_1_def call_def dispatch_def initialize_branch_def params_or_empty_def dict_get_def
      attr_get_def initialize_result_name_true internal_error_response_def debug_detail_def
      default_settings_def)

text \<open>
  C8. On a stream whose surroundings never fail, the chunks are \<open>ready\<close> and then an
  \<open>error\<close> event, after which the stream ends: no capabilities event and no heartbeat
  follow the \<open>ready\<close> event.
\<close>

theorem stream_second_chunk_is_error:
  "event_stream default_settings str_class ''client-1'' calm_stream =
     ([Ready ''client-1'', Stream_error ''NameError''], Finished)"
  by (simp add: event_stream_def event_stream_try_def at_suspension_def calm_stream_def
      sse_response_name_true str_class_def)

text \<open>
  C9. Building the capabilities response of the stream raises \<open>NameError\<close>, and so does
  building the result of \<open>initialize\<close>; no stream carries a capabilities event.
\<close>

theorem no_capabilities_on_either_path:
  "sse_response cfg name_true = Inl (NameError ''true'')
   \<and> initialize_result cfg name_true = Inl (NameError ''true'')
   \<and> (\<forall>r. Capabilities r \<notin> set (fst (event_stream cfg str_of client_id env)))"
  by (auto simp: sse_response_name_true initialize_result_name_true event_stream_def
      event_stream_try_def at_suspension_def split: resume.splits)

text \<open>
  C10. In any two runs of the process, from any two logs and over any two sequences of
  calls, two calls with the same body get the same response, whatever was served before
  them and whatever request id and clock readings they were given.
\<close>

theorem responses_depend_on_body_only:
  assumes "i < length calls" and "j < length calls'" and "snd (calls ! i) = snd (calls' ! j)"
  shows "response (snd (serve cfg str_of lg calls) ! i)
           = response (snd (serve cfg str_of lg' calls') ! j)"
proof -
  obtain env rj where ci: "calls ! i = (env, rj)" by (cases "calls ! i") auto
  obtain env' rj' where cj: "calls' ! j = (env', rj')" by (cases "calls' ! j") auto
  from assms(3) ci cj have eq: "rj' = rj" by simp
  have "snd (serve cfg str_of lg calls) ! i = mcp_post cfg str_of env rj"
    using assms(1) ci by (simp add: serve_outcomes)
  moreover have "snd (serve cfg str_of lg' calls') ! j = mcp_post cfg str_of env' rj"
    using assms(2) cj eq by (simp add: serve_outcomes)
  ultimately show ?thesis
    using mcp_post_env(1) [of cfg str_of env rj env'] by simp
qed

text \<open>C10 at the query of scenario 2, first in one run and third in another.\<close>

theorem responses_depend_on_body_only_witness:
  "response (snd (serve default_settings str_class []
                    [(env_1, scenario_2), (env_2, scenario_3)]) ! 0)
   = response (snd (serve default_settings str_class [Log_shutdown]
                    [(env_1, scenario_1), (env_1, scenario_3), (env_2, scenario_2)]) ! 2)"
  using responses_depend_on_body_only [of 0 "[(env_1, scenario_2), (env_2, scenario_3)]" 2
      "[(env_1, scenario_1), (env_1, scenario_3), (env_2, scenario_2)]"
      default_settings str_class "[]" "[Log_shutdown]"]
  by simp

end
